theory Spec2Isabelle
  imports Main "HOL-Library.AList"
begin

section \<open>Data model\<close>

text \<open>
  The repository is a wrapper around an axios instance (\<^verbatim>\<open>httpClient.ts\<close>) plus one helper
  (\<^verbatim>\<open>util.ts\<close>).  JavaScript objects with string keys are association lists: a property
  read \<^verbatim>\<open>o.k\<close> is \<open>map_of o k\<close>, an absent property (\<^verbatim>\<open>undefined\<close>) is \<open>None\<close>, and the object
  spread \<^verbatim>\<open>{...o, k: v}\<close> is \<open>AList.update k v o\<close>: it overwrites the value of an existing key
  at its place and appends a new key at the end.  Optional fields of the axios types are
  \<open>option\<close>s.  Values typed \<^verbatim>\<open>any\<close> (request bodies, response payloads) are a type
  parameter \<open>'d\<close>.
\<close>

type_synonym header_map = "(string \<times> string) list"

text \<open>\<^verbatim>\<open>AxiosRequestConfig\<close>: the fields the wrapper reads or writes.  \<open>requestId\<close> is
  the non-standard field that the failure handlers look for; \<open>http_method\<close> and
  \<open>body_data\<close> are the fields \<^verbatim>\<open>method\<close> and
  \<^verbatim>\<open>data\<close> of a request.\<close>

record 'd request_config =
  url :: "string option"
  http_method :: "string option"
  headers :: "header_map option"
  body_data :: "'d option"
  responseType :: "string option"
  requestId :: "string option"

text \<open>The three fields of a response that \<^verbatim>\<open>serializeError\<close> returns, and an
  \<^verbatim>\<open>AxiosResponse\<close>, which has these and more (of which the response headers are kept).\<close>

record 'd response_summary =
  status :: int
  statusText :: string
  data :: 'd

record 'd axios_response = "'d response_summary" +
  response_headers :: header_map

text \<open>The low-level request object attached to an error (\<^verbatim>\<open>error.request\<close>).\<close>

record 'd raw_request =
  raw_config :: "'d request_config option"

text \<open>An error value: a plain \<^verbatim>\<open>Error\<close> has only a message, an \<^verbatim>\<open>AxiosError\<close> may carry
  the request configuration, the low-level request and the response.\<close>

record 'd axios_error =
  message :: string
  config :: "'d request_config option"
  request :: "'d raw_request option"
  response :: "'d axios_response option"

definition Error :: "string \<Rightarrow> 'd axios_error" where
  "Error msg = \<lparr>message = msg, config = None, request = None, response = None\<rparr>"

text \<open>A structured log event, as passed to \<^verbatim>\<open>logFunction\<close>.\<close>

record 'd log_event =
  title :: string
  level :: string
  log_requestId :: "string option"
  log_method :: "string option"
  log_url :: "string option"
  exception :: "'d axios_error option"

text \<open>
  The effects of the module are made explicit in a \<open>world\<close>:
  \<^item> \<open>requestId_var\<close> is the module-level variable \<^verbatim>\<open>let requestId = ''\<close>;
  \<^item> \<open>uuid_v4\<close> and \<open>uuid_calls\<close> stand for the generator \<^verbatim>\<open>uuid.v4()\<close>: its \<open>n\<close>-th call
    returns \<open>uuid_v4 n\<close>;
  \<^item> \<open>logged\<close> is the sequence of events handed to \<^verbatim>\<open>logFunction\<close>;
  \<^item> \<open>resolverCalls\<close> counts the invocations of the token resolver;
  \<^item> \<open>sent\<close> is the sequence of request configurations handed to the transport adapter;
  \<^item> \<open>configs\<close> is the store of the caller's per-call configuration objects, by address.
\<close>

record 'd world =
  requestId_var :: string
  uuid_v4 :: "nat \<Rightarrow> string"
  uuid_calls :: nat
  logged :: "'d log_event list"
  resolverCalls :: nat
  sent :: "'d request_config list"
  configs :: "nat \<Rightarrow> 'd request_config"

text \<open>A token resolver \<^verbatim>\<open>() => Promise<string>\<close>: its \<open>n\<close>-th invocation either rejects
  with an error or resolves to a token.  A transport adapter: its \<open>n\<close>-th call, on a request
  configuration, either rejects or resolves to a response.\<close>

type_synonym 'd token_resolver = "nat \<Rightarrow> 'd axios_error + string"

type_synonym 'd adapter = "nat \<Rightarrow> 'd request_config \<Rightarrow> 'd axios_error + 'd axios_response"

text \<open>The handlers registered on an axios instance are kept as tags; \<open>Foreign\<close> stands for
  a handler that a caller registered on a client of their own.\<close>

datatype interceptor = Foreign nat | HttpClient_request | HttpClient_response

record 'd axios_instance =
  adapter :: "'d adapter"
  request_handlers :: "interceptor list"
  response_handlers :: "interceptor list"

record ('d, 'co, 'ro) HttpClientOptions =
  opt_client :: "'d axios_instance option"
  opt_tokenResolver :: "'d token_resolver option"
  opt_enableCache :: "bool option"
  opt_cacheOptions :: "'co option"
  opt_enableRetry :: "bool option"
  opt_retryOptions :: "'ro option"

record 'd HttpClient =
  tokenResolverFunction :: "'d token_resolver option"
  client :: "'d axios_instance"
  enableRetry :: bool
  enableCache :: bool

section \<open>JavaScript helpers\<close>

text \<open>Truthiness of an optional string: \<^verbatim>\<open>undefined\<close> and the empty string are falsy.\<close>

definition truthy :: "string option \<Rightarrow> bool" where
  "truthy v = (case v of None \<Rightarrow> False | Some s \<Rightarrow> s \<noteq> [])"

text \<open>\<^verbatim>\<open>a || b\<close> on optional strings.\<close>

definition js_or :: "string option \<Rightarrow> string option \<Rightarrow> string option" where
  "js_or a b = (if truthy a then a else b)"

definition invalidToken :: string where
  "invalidToken = ''Invalid token''"

definition conflictMessage :: string where
  "conflictMessage = ''Authorization header already specified, please create a new HttpClient with a different (or without a) tokenResolver''"

definition missingUrlMessage :: string where
  "missingUrlMessage = ''HttpClient Error: '' @ [CHR 0x22] @ ''url'' @ [CHR 0x22] @ '' must be defined''"

definition logFunction :: "'d log_event \<Rightarrow> 'd world \<Rightarrow> 'd world" where
  "logFunction ev w = w\<lparr>logged := logged w @ [ev]\<rparr>"

section \<open>Header resolution\<close>

text \<open>\<^verbatim>\<open>createHeadersWithResolvedToken(headers = {})\<close>.  The argument is \<open>None\<close> when the
  caller passes \<^verbatim>\<open>undefined\<close>, and the default \<^verbatim>\<open>{}\<close> is used.\<close>

definition createHeadersWithResolvedToken ::
  "'d HttpClient \<Rightarrow> header_map option \<Rightarrow> 'd world \<Rightarrow> ('d axios_error + header_map) \<times> 'd world" where
  "createHeadersWithResolvedToken hc arg w =
    (let hs = (case arg of None \<Rightarrow> [] | Some h \<Rightarrow> h) in
     case tokenResolverFunction hc of
       Some resolver \<Rightarrow>
         if truthy (map_of hs ''Authorization'')
         then (Inl (Error conflictMessage), w)
         else (case resolver (resolverCalls w) of
                 Inl e \<Rightarrow> (Inl e, w\<lparr>resolverCalls := Suc (resolverCalls w)\<rparr>)
               | Inr token \<Rightarrow>
                   (Inr (AList.update ''Authorization'' (''Bearer '' @ token) hs),
                    w\<lparr>resolverCalls := Suc (resolverCalls w)\<rparr>))
     | None \<Rightarrow> (Inr hs, w))"

section \<open>Interceptors\<close>

text \<open>The handler that the constructor registers on \<^verbatim>\<open>interceptors.request\<close>: it
  overwrites the module-level \<^verbatim>\<open>requestId\<close> with a new identifier, logs the request and
  throws when the configuration has no (or an empty) \<open>url\<close>.  The second argument
  \<^verbatim>\<open>false\<close> of this one call of \<^verbatim>\<open>logFunction\<close> is not recorded.\<close>

definition request_fulfilled ::
  "'d request_config \<Rightarrow> 'd world \<Rightarrow> ('d axios_error + 'd request_config) \<times> 'd world" where
  "request_fulfilled cfg w =
    (let w1 = w\<lparr>requestId_var := uuid_v4 w (uuid_calls w), uuid_calls := Suc (uuid_calls w)\<rparr>;
         w2 = logFunction
                \<lparr>title = ''HTTP Request'', level = ''INFO'',
                 log_requestId = Some (requestId_var w1),
                 log_method = http_method cfg, log_url = url cfg, exception = None\<rparr> w1
     in if \<not> truthy (url cfg)
        then (Inl (Error missingUrlMessage), w2)
        else (Inr cfg, w2))"

text \<open>\<^verbatim>\<open>error?.config?.requestId ?? error?.request?.config?.requestId\<close>: the right
  operand is used only when the left one is \<^verbatim>\<open>undefined\<close>.\<close>

definition request_error_id :: "('d, 'x) axios_error_scheme \<Rightarrow> string option" where
  "request_error_id error =
    (case (case config error of None \<Rightarrow> None | Some c \<Rightarrow> requestId c) of
       Some i \<Rightarrow> Some i
     | None \<Rightarrow>
         (case request error of
            None \<Rightarrow> None
          | Some r \<Rightarrow> (case raw_config r of None \<Rightarrow> None | Some c \<Rightarrow> requestId c)))"

text \<open>The error handler registered on \<^verbatim>\<open>interceptors.request\<close>.\<close>

definition request_rejected ::
  "'d axios_error \<Rightarrow> 'd world \<Rightarrow> ('d axios_error + 'd request_config) \<times> 'd world" where
  "request_rejected error w =
    (let w1 = logFunction
                \<lparr>title = ''HTTP Request Error'', level = ''WARN'',
                 log_requestId = request_error_id error,
                 log_method = None, log_url = None, exception = Some error\<rparr> w
     in (Inl (Error (message error)), w1))"

text \<open>The success handler registered on \<^verbatim>\<open>interceptors.response\<close> returns the response.\<close>

definition response_fulfilled ::
  "'d axios_response \<Rightarrow> 'd world \<Rightarrow> ('d axios_error + 'd axios_response) \<times> 'd world" where
  "response_fulfilled resp w = (Inr resp, w)"

text \<open>\<^verbatim>\<open>(error && error.config && error.config.requestId) ||
  (error.request && error.request.config && error.request.config.requestId)\<close>.\<close>

definition errorRequestId :: "'d axios_error \<Rightarrow> string option" where
  "errorRequestId error =
    js_or (case config error of None \<Rightarrow> None | Some c \<Rightarrow> requestId c)
          (case request error of
             None \<Rightarrow> None
           | Some r \<Rightarrow> (case raw_config r of None \<Rightarrow> None | Some c \<Rightarrow> requestId c))"

text \<open>The error handler registered on \<^verbatim>\<open>interceptors.response\<close>.\<close>

definition response_rejected ::
  "'d axios_error \<Rightarrow> 'd world \<Rightarrow> ('d axios_error + 'd axios_response) \<times> 'd world" where
  "response_rejected error w =
    (let w1 = (if message error = invalidToken
               then logFunction
                      \<lparr>title = ''HTTP call skipped due to a token error'', level = ''INFO'',
                       log_requestId = errorRequestId error,
                       log_method = None, log_url = None, exception = Some error\<rparr> w
               else logFunction
                      \<lparr>title = ''HTTP Response Error'', level = ''INFO'',
                       log_requestId = errorRequestId error,
                       log_method = None, log_url = None, exception = Some error\<rparr> w)
     in (Inl (Error (message error)), w1))"

section \<open>The request chain of the client\<close>

text \<open>
  One request through a client that carries the two interceptors of the constructor and no
  other, in the order in which axios chains the handlers: the request handler, then the
  transport adapter, then the response handlers.  A rejection of the request handler skips
  the adapter and arrives at the error handler of the response interceptor.  The
  configuration that reaches the adapter is recorded in \<open>sent\<close>.  The merge of the instance
  defaults into the configuration is left to axios and is not modelled.
\<close>

definition axios_request ::
  "'d HttpClient \<Rightarrow> 'd request_config \<Rightarrow> 'd world \<Rightarrow> ('d axios_error + 'd axios_response) \<times> 'd world" where
  "axios_request hc cfg w =
    (case request_fulfilled cfg w of
       (Inl e, w1) \<Rightarrow> response_rejected e w1
     | (Inr cfg1, w1) \<Rightarrow>
         (let w2 = w1\<lparr>sent := sent w1 @ [cfg1]\<rparr> in
          case adapter (client hc) (length (sent w1)) cfg1 of
            Inl e \<Rightarrow> response_rejected e w2
          | Inr resp \<Rightarrow> response_fulfilled resp w2))"

section \<open>Verb methods\<close>

text \<open>The per-call configuration is an object of the caller: the methods receive its
  address in the store \<open>configs\<close>, or \<open>None\<close> when the argument is omitted and the default
  object of the parameter is used, which no caller can see.\<close>

definition empty_config :: "'d request_config" where
  "empty_config =
    \<lparr>url = None, http_method = None, headers = None, body_data = None,
     responseType = None, requestId = None\<rparr>"

definition load_config :: "'d request_config \<Rightarrow> nat option \<Rightarrow> 'd world \<Rightarrow> 'd request_config" where
  "load_config dflt ref w = (case ref of None \<Rightarrow> dflt | Some a \<Rightarrow> configs w a)"

text \<open>The assignment \<^verbatim>\<open>config.headers = h\<close>.\<close>

definition assign_headers :: "nat option \<Rightarrow> header_map \<Rightarrow> 'd world \<Rightarrow> 'd world" where
  "assign_headers ref h w =
    (case ref of
       None \<Rightarrow> w
     | Some a \<Rightarrow> w\<lparr>configs := (configs w)(a := (configs w a)\<lparr>headers := Some h\<rparr>)\<rparr>)"

text \<open>\<^verbatim>\<open>get\<close> passes the new object
  \<^verbatim>\<open>{responseType: 'json', ...config, headers: await ...}\<close> to the client.\<close>

definition get ::
  "'d HttpClient \<Rightarrow> string \<Rightarrow> nat option \<Rightarrow> 'd world \<Rightarrow> ('d axios_error + 'd axios_response) \<times> 'd world" where
  "get hc u ref w =
    (let cfg = load_config (empty_config\<lparr>responseType := Some ''json''\<rparr>) ref w in
     case createHeadersWithResolvedToken hc (headers cfg) w of
       (Inl e, w1) \<Rightarrow> (Inl e, w1)
     | (Inr h, w1) \<Rightarrow>
         axios_request hc
           (cfg\<lparr>responseType := (case responseType cfg of None \<Rightarrow> Some ''json'' | Some t \<Rightarrow> Some t),
                headers := Some h, http_method := Some ''get'', url := Some u\<rparr>) w1)"

definition post ::
  "'d HttpClient \<Rightarrow> string \<Rightarrow> 'd \<Rightarrow> nat option \<Rightarrow> 'd world \<Rightarrow> ('d axios_error + 'd axios_response) \<times> 'd world" where
  "post hc u d ref w =
    (let cfg = load_config empty_config ref w in
     case createHeadersWithResolvedToken hc (headers cfg) w of
       (Inl e, w1) \<Rightarrow> (Inl e, w1)
     | (Inr h, w1) \<Rightarrow>
         (let w2 = assign_headers ref h w1 in
          axios_request hc
            (cfg\<lparr>headers := Some h, http_method := Some ''post'', url := Some u, body_data := Some d\<rparr>) w2))"

definition put ::
  "'d HttpClient \<Rightarrow> string \<Rightarrow> 'd \<Rightarrow> nat option \<Rightarrow> 'd world \<Rightarrow> ('d axios_error + 'd axios_response) \<times> 'd world" where
  "put hc u d ref w =
    (let cfg = load_config empty_config ref w in
     case createHeadersWithResolvedToken hc (headers cfg) w of
       (Inl e, w1) \<Rightarrow> (Inl e, w1)
     | (Inr h, w1) \<Rightarrow>
         (let w2 = assign_headers ref h w1 in
          axios_request hc
            (cfg\<lparr>headers := Some h, http_method := Some ''put'', url := Some u, body_data := Some d\<rparr>) w2))"

definition patch ::
  "'d HttpClient \<Rightarrow> string \<Rightarrow> 'd \<Rightarrow> nat option \<Rightarrow> 'd world \<Rightarrow> ('d axios_error + 'd axios_response) \<times> 'd world" where
  "patch hc u d ref w =
    (let cfg = load_config empty_config ref w in
     case createHeadersWithResolvedToken hc (headers cfg) w of
       (Inl e, w1) \<Rightarrow> (Inl e, w1)
     | (Inr h, w1) \<Rightarrow>
         (let w2 = assign_headers ref h w1 in
          axios_request hc
            (cfg\<lparr>headers := Some h, http_method := Some ''patch'', url := Some u, body_data := Some d\<rparr>) w2))"

definition delete ::
  "'d HttpClient \<Rightarrow> string \<Rightarrow> nat option \<Rightarrow> 'd world \<Rightarrow> ('d axios_error + 'd axios_response) \<times> 'd world" where
  "delete hc u ref w =
    (let cfg = load_config empty_config ref w in
     case createHeadersWithResolvedToken hc (headers cfg) w of
       (Inl e, w1) \<Rightarrow> (Inl e, w1)
     | (Inr h, w1) \<Rightarrow>
         (let w2 = assign_headers ref h w1 in
          axios_request hc (cfg\<lparr>headers := Some h, http_method := Some ''delete'', url := Some u\<rparr>) w2))"

definition head ::
  "'d HttpClient \<Rightarrow> string \<Rightarrow> nat option \<Rightarrow> 'd world \<Rightarrow> ('d axios_error + 'd axios_response) \<times> 'd world" where
  "head hc u ref w =
    (let cfg = load_config empty_config ref w in
     case createHeadersWithResolvedToken hc (headers cfg) w of
       (Inl e, w1) \<Rightarrow> (Inl e, w1)
     | (Inr h, w1) \<Rightarrow>
         (let w2 = assign_headers ref h w1 in
          axios_request hc (cfg\<lparr>headers := Some h, http_method := Some ''head'', url := Some u\<rparr>) w2))"

definition options ::
  "'d HttpClient \<Rightarrow> string \<Rightarrow> nat option \<Rightarrow> 'd world \<Rightarrow> ('d axios_error + 'd axios_response) \<times> 'd world" where
  "options hc u ref w =
    (let cfg = load_config empty_config ref w in
     case createHeadersWithResolvedToken hc (headers cfg) w of
       (Inl e, w1) \<Rightarrow> (Inl e, w1)
     | (Inr h, w1) \<Rightarrow>
         (let w2 = assign_headers ref h w1 in
          axios_request hc (cfg\<lparr>headers := Some h, http_method := Some ''options'', url := Some u\<rparr>) w2))"

section \<open>Construction\<close>

text \<open>What the constructor takes from its imports: the default adapter of axios and the
  two adapter enhancers of \<^verbatim>\<open>axios-extensions\<close>, which are opaque functions here.\<close>

record ('d, 'co, 'ro) dependencies =
  defaults_adapter :: "'d adapter"
  cacheAdapterEnhancer :: "'d adapter \<Rightarrow> 'co option \<Rightarrow> 'd adapter"
  retryAdapterEnhancer :: "'d adapter \<Rightarrow> 'ro option \<Rightarrow> 'd adapter"

text \<open>\<^verbatim>\<open>options?.f\<close> and \<^verbatim>\<open>v ?? d\<close>.\<close>

definition opt_chain :: "'o option \<Rightarrow> ('o \<Rightarrow> 'a option) \<Rightarrow> 'a option" where
  "opt_chain opts f = (case opts of None \<Rightarrow> None | Some x \<Rightarrow> f x)"

definition nullish :: "'a option \<Rightarrow> 'a \<Rightarrow> 'a" where
  "nullish v d = (case v of None \<Rightarrow> d | Some x \<Rightarrow> x)"

definition axios_create :: "'d adapter \<Rightarrow> 'd axios_instance" where
  "axios_create a = \<lparr>adapter = a, request_handlers = [], response_handlers = []\<rparr>"

definition register_interceptors :: "'d axios_instance \<Rightarrow> 'd axios_instance" where
  "register_interceptors c =
    c\<lparr>request_handlers := request_handlers c @ [HttpClient_request],
      response_handlers := response_handlers c @ [HttpClient_response]\<rparr>"

text \<open>The function expression that the constructor calls in place to compute the
  \<^verbatim>\<open>adapter\<close> option of \<^verbatim>\<open>axios.create\<close>.\<close>

definition build_adapter ::
  "('d, 'co, 'ro) dependencies \<Rightarrow> bool \<Rightarrow> 'co option \<Rightarrow> bool \<Rightarrow> 'ro option \<Rightarrow> 'd adapter" where
  "build_adapter im cache cacheOpts retry retryOpts =
    (let adapters = defaults_adapter im;
         adapters = (if cache then cacheAdapterEnhancer im adapters cacheOpts else adapters);
         adapters = (if retry then retryAdapterEnhancer im adapters retryOpts else adapters)
     in adapters)"

definition new_HttpClient ::
  "('d, 'co, 'ro) dependencies \<Rightarrow> ('d, 'co, 'ro) HttpClientOptions option \<Rightarrow> 'd HttpClient" where
  "new_HttpClient im opts =
    (let resolver = opt_chain opts opt_tokenResolver;
         cache = nullish (opt_chain opts opt_enableCache) False;
         retry = nullish (opt_chain opts opt_enableRetry) False;
         c = nullish (opt_chain opts opt_client)
               (axios_create
                  (build_adapter im cache (opt_chain opts opt_cacheOptions)
                     retry (opt_chain opts opt_retryOptions)))
     in \<lparr>tokenResolverFunction = resolver, client = register_interceptors c,
         enableRetry = retry, enableCache = cache\<rparr>)"

section \<open>Error serialization\<close>

text \<open>\<^verbatim>\<open>serializeError\<close> of \<^verbatim>\<open>util.ts\<close>; the result \<^verbatim>\<open>undefined\<close> is \<open>None\<close>.  The error's
  response has more fields than the three that are copied.\<close>

definition serializeError ::
  "('d, 'x) axios_error_scheme \<Rightarrow> 'd response_summary option" where
  "serializeError error =
    (case response error of
       None \<Rightarrow> None
     | Some r \<Rightarrow> Some \<lparr>status = status r, statusText = statusText r, data = data r\<rparr>)"

section \<open>Initial state and sample collaborators\<close>

text \<open>The state of a freshly loaded module (\<^verbatim>\<open>let requestId: string = ''\<close>), for a given
  identifier generator: nothing logged, resolved or sent yet.\<close>

definition initial_world :: "(nat \<Rightarrow> string) \<Rightarrow> 'd world" where
  "initial_world gen =
    \<lparr>requestId_var = [], uuid_v4 = gen, uuid_calls = 0, logged = [], resolverCalls = 0,
     sent = [], configs = (\<lambda>a. empty_config)\<rparr>"

text \<open>Collaborators for the concrete runs below: a generator of distinct identifiers, a
  resolver that always resolves to the same token (as in the README), and a transport
  that fails every call with a network error that carries the request configuration, the
  way the adapters of axios build their errors.\<close>

definition sample_uuid :: "nat \<Rightarrow> string" where
  "sample_uuid n = ''id-'' @ replicate (Suc n) (CHR ''x'')"

definition constant_resolver :: "string \<Rightarrow> 'd token_resolver" where
  "constant_resolver token = (\<lambda>n. Inr token)"

definition network_error_adapter :: "'d adapter" where
  "network_error_adapter =
    (\<lambda>n cfg. Inl \<lparr>message = ''Network Error'', config = Some cfg, request = None,
                   response = None\<rparr>)"

section \<open>Basic facts\<close>

lemma update_absent_key: "k \<notin> fst ` set xs \<Longrightarrow> AList.update k v xs = xs @ [(k, v)]"
  by (induction xs) auto

lemma map_of_absent_key: "k \<notin> fst ` set xs \<Longrightarrow> map_of xs k = None"
  by (simp add: map_of_eq_None_iff)

lemma truthy_simps:
  "truthy None = False" "truthy (Some s) = (s \<noteq> [])"
  by (simp_all add: truthy_def)

lemma message_Error [simp]: "message (Error m) = m"
  by (simp add: Error_def)

lemma conflict_fails:
  assumes "tokenResolverFunction hc = Some resolver"
    and "map_of hs ''Authorization'' = Some v" and "v \<noteq> []"
  shows "createHeadersWithResolvedToken hc (Some hs) w = (Inl (Error conflictMessage), w)"
  using assms by (simp add: createHeadersWithResolvedToken_def truthy_simps)

subsection \<open>The interceptors and the request chain\<close>

lemma request_fulfilled_no_url:
  "\<not> truthy (url cfg) \<Longrightarrow>
   request_fulfilled cfg w =
     (Inl (Error missingUrlMessage),
      logFunction \<lparr>title = ''HTTP Request'', level = ''INFO'',
                   log_requestId = Some (uuid_v4 w (uuid_calls w)),
                   log_method = http_method cfg, log_url = url cfg, exception = None\<rparr>
        (w\<lparr>requestId_var := uuid_v4 w (uuid_calls w), uuid_calls := Suc (uuid_calls w)\<rparr>))"
  by (simp add: request_fulfilled_def Let_def)

lemma request_fulfilled_url:
  "truthy (url cfg) \<Longrightarrow>
   request_fulfilled cfg w =
     (Inr cfg,
      logFunction \<lparr>title = ''HTTP Request'', level = ''INFO'',
                   log_requestId = Some (uuid_v4 w (uuid_calls w)),
                   log_method = http_method cfg, log_url = url cfg, exception = None\<rparr>
        (w\<lparr>requestId_var := uuid_v4 w (uuid_calls w), uuid_calls := Suc (uuid_calls w)\<rparr>))"
  by (simp add: request_fulfilled_def Let_def)

lemma response_rejected_eq:
  "response_rejected error w =
     (Inl (Error (message error)),
      w\<lparr>logged := logged w @
         [\<lparr>title = (if message error = ''Invalid token''
                    then ''HTTP call skipped due to a token error''
                    else ''HTTP Response Error''),
           level = ''INFO'', log_requestId = errorRequestId error,
           log_method = None, log_url = None, exception = Some error\<rparr>]\<rparr>)"
  by (simp add: response_rejected_def logFunction_def invalidToken_def)

lemma axios_request_transport_failure:
  assumes "truthy (url cfg)" and "adapter (client hc) (length (sent w)) cfg = Inl error"
  shows "axios_request hc cfg w =
    response_rejected error
      ((logFunction \<lparr>title = ''HTTP Request'', level = ''INFO'',
                   log_requestId = Some (uuid_v4 w (uuid_calls w)),
                   log_method = http_method cfg, log_url = url cfg, exception = None\<rparr>
        (w\<lparr>requestId_var := uuid_v4 w (uuid_calls w), uuid_calls := Suc (uuid_calls w)\<rparr>))
       \<lparr>sent := sent w @ [cfg]\<rparr>)"
  using assms
  by (simp add: axios_request_def request_fulfilled_url logFunction_def Let_def)

text \<open>The \<open>requestId\<close> of the failure log event is read from the error alone.\<close>

lemma failure_log_requestId_from_error:
  assumes "truthy (url cfg)" and "adapter (client hc) (length (sent w)) cfg = Inl error"
  shows "log_requestId (last (logged (snd (axios_request hc cfg w)))) = errorRequestId error"
  using assms by (simp add: axios_request_transport_failure response_rejected_eq)

subsection \<open>What reaches the transport\<close>

lemma sent_logFunction [simp]: "sent (logFunction ev w) = sent w"
  by (simp add: logFunction_def)

lemma sent_response_rejected [simp]: "sent (snd (response_rejected e w)) = sent w"
  by (simp add: response_rejected_def)

lemma fst_response_rejected [simp]: "fst (response_rejected e w) = Inl (Error (message e))"
  by (simp add: response_rejected_def)

lemma axios_request_no_url:
  assumes "\<not> truthy (url cfg)"
  shows "fst (axios_request hc cfg w) = Inl (Error missingUrlMessage)"
    and "sent (snd (axios_request hc cfg w)) = sent w"
  using assms by (simp_all add: axios_request_def request_fulfilled_no_url)

lemma sent_createHeaders [simp]:
  "sent (snd (createHeadersWithResolvedToken hc arg w)) = sent w"
  by (simp add: createHeadersWithResolvedToken_def Let_def split: option.split sum.split)

lemma sent_assign_headers [simp]: "sent (assign_headers ref h w) = sent w"
  by (simp add: assign_headers_def split: option.split)

lemma sent_createHeaders_eq:
  "createHeadersWithResolvedToken hc arg w = (r, w1) \<Longrightarrow> sent w1 = sent w"
  using sent_createHeaders [of hc arg w] by simp

lemma verbs_empty_url_not_sent:
  "sent (snd (get hc [] ref w)) = sent w"
  "sent (snd (post hc [] d ref w)) = sent w"
  "sent (snd (put hc [] d ref w)) = sent w"
  "sent (snd (patch hc [] d ref w)) = sent w"
  "sent (snd (delete hc [] ref w)) = sent w"
  "sent (snd (head hc [] ref w)) = sent w"
  "sent (snd (options hc [] ref w)) = sent w"
  by (auto simp add: get_def post_def put_def patch_def delete_def head_def options_def
      Let_def axios_request_no_url truthy_simps dest: sent_createHeaders_eq
      split: prod.split sum.split)

subsection \<open>The store of configuration objects\<close>

lemma configs_logFunction [simp]: "configs (logFunction ev w) = configs w"
  by (simp add: logFunction_def)

lemma configs_response_rejected [simp]: "configs (snd (response_rejected e w)) = configs w"
  by (simp add: response_rejected_def)

lemma configs_request_fulfilled [simp]: "configs (snd (request_fulfilled cfg w)) = configs w"
  by (simp add: request_fulfilled_def Let_def)

lemma configs_axios_request [simp]: "configs (snd (axios_request hc cfg w)) = configs w"
proof (cases "request_fulfilled cfg w")
  case (Pair r w1)
  then have c: "configs w1 = configs w"
    using configs_request_fulfilled [of cfg w] by simp
  show ?thesis
    using Pair c
    by (cases r) (simp_all add: axios_request_def response_fulfilled_def Let_def split: sum.split)
qed

lemma configs_createHeaders [simp]:
  "configs (snd (createHeadersWithResolvedToken hc arg w)) = configs w"
  by (simp add: createHeadersWithResolvedToken_def Let_def split: option.split sum.split)

lemma createHeaders_configs_eq:
  "createHeadersWithResolvedToken hc arg w = (r, w1) \<Longrightarrow> configs w1 = configs w"
  using configs_createHeaders [of hc arg w] by simp

lemma configs_assign_headers:
  "configs (assign_headers (Some a) h w) = (configs w)(a := (configs w a)\<lparr>headers := Some h\<rparr>)"
  by (simp add: assign_headers_def)

lemma get_keeps_configs: "configs (snd (get hc u ref w)) = configs w"
proof (cases "createHeadersWithResolvedToken hc
    (headers (load_config (empty_config\<lparr>responseType := Some ''json''\<rparr>) ref w)) w")
  case (Pair r w1)
  then have "configs w1 = configs w"
    using configs_createHeaders
      [of hc "headers (load_config (empty_config\<lparr>responseType := Some ''json''\<rparr>) ref w)" w]
    by simp
  with Pair show ?thesis
    by (cases r) (simp_all add: get_def Let_def)
qed

lemma post_configs:
  "configs (snd (post hc u d (Some a) w)) =
     (case fst (createHeadersWithResolvedToken hc (headers (configs w a)) w) of
        Inl e \<Rightarrow> configs w
      | Inr h \<Rightarrow> (configs w)(a := (configs w a)\<lparr>headers := Some h\<rparr>))"
proof (cases "createHeadersWithResolvedToken hc (headers (configs w a)) w")
  case (Pair r w1)
  then show ?thesis
    using createHeaders_configs_eq [OF Pair]
    by (cases r) (simp_all add: post_def load_config_def Let_def configs_assign_headers)
qed

lemma put_configs:
  "configs (snd (put hc u d (Some a) w)) =
     (case fst (createHeadersWithResolvedToken hc (headers (configs w a)) w) of
        Inl e \<Rightarrow> configs w
      | Inr h \<Rightarrow> (configs w)(a := (configs w a)\<lparr>headers := Some h\<rparr>))"
proof (cases "createHeadersWithResolvedToken hc (headers (configs w a)) w")
  case (Pair r w1)
  then show ?thesis
    using createHeaders_configs_eq [OF Pair]
    by (cases r) (simp_all add: put_def load_config_def Let_def configs_assign_headers)
qed

lemma patch_configs:
  "configs (snd (patch hc u d (Some a) w)) =
     (case fst (createHeadersWithResolvedToken hc (headers (configs w a)) w) of
        Inl e \<Rightarrow> configs w
      | Inr h \<Rightarrow> (configs w)(a := (configs w a)\<lparr>headers := Some h\<rparr>))"
proof (cases "createHeadersWithResolvedToken hc (headers (configs w a)) w")
  case (Pair r w1)
  then show ?thesis
    using createHeaders_configs_eq [OF Pair]
    by (cases r) (simp_all add: patch_def load_config_def Let_def configs_assign_headers)
qed

lemma delete_configs:
  "configs (snd (delete hc u (Some a) w)) =
     (case fst (createHeadersWithResolvedToken hc (headers (configs w a)) w) of
        Inl e \<Rightarrow> configs w
      | Inr h \<Rightarrow> (configs w)(a := (configs w a)\<lparr>headers := Some h\<rparr>))"
proof (cases "createHeadersWithResolvedToken hc (headers (configs w a)) w")
  case (Pair r w1)
  then show ?thesis
    using createHeaders_configs_eq [OF Pair]
    by (cases r) (simp_all add: delete_def load_config_def Let_def configs_assign_headers)
qed

lemma head_configs:
  "configs (snd (head hc u (Some a) w)) =
     (case fst (createHeadersWithResolvedToken hc (headers (configs w a)) w) of
        Inl e \<Rightarrow> configs w
      | Inr h \<Rightarrow> (configs w)(a := (configs w a)\<lparr>headers := Some h\<rparr>))"
proof (cases "createHeadersWithResolvedToken hc (headers (configs w a)) w")
  case (Pair r w1)
  then show ?thesis
    using createHeaders_configs_eq [OF Pair]
    by (cases r) (simp_all add: head_def load_config_def Let_def configs_assign_headers)
qed

lemma options_configs:
  "configs (snd (options hc u (Some a) w)) =
     (case fst (createHeadersWithResolvedToken hc (headers (configs w a)) w) of
        Inl e \<Rightarrow> configs w
      | Inr h \<Rightarrow> (configs w)(a := (configs w a)\<lparr>headers := Some h\<rparr>))"
proof (cases "createHeadersWithResolvedToken hc (headers (configs w a)) w")
  case (Pair r w1)
  then show ?thesis
    using createHeaders_configs_eq [OF Pair]
    by (cases r) (simp_all add: options_def load_config_def Let_def configs_assign_headers)
qed

section \<open>The claims\<close>

text \<open>
  Claim C1, as amended.  For every header mapping whose \<^verbatim>\<open>Authorization\<close> entry has a
  non-empty value, if a token resolver is configured, then
  \<open>createHeadersWithResolvedToken\<close> fails with the configuration-conflict error and leaves
  the world as it was: the resolver is not invoked, nothing is logged and nothing is sent.
  The same holds for each of the seven verb methods called with a configuration object
  that carries such headers.
\<close>

theorem C1_conflict_when_authorization_nonempty:
  assumes "tokenResolverFunction hc = Some resolver"
    and "map_of hs ''Authorization'' = Some v" and "v \<noteq> []"
  shows "createHeadersWithResolvedToken hc (Some hs) w = (Inl (Error conflictMessage), w)
    \<and> (headers (configs w a) = Some hs \<longrightarrow>
         get hc u (Some a) w = (Inl (Error conflictMessage), w)
       \<and> post hc u d (Some a) w = (Inl (Error conflictMessage), w)
       \<and> put hc u d (Some a) w = (Inl (Error conflictMessage), w)
       \<and> patch hc u d (Some a) w = (Inl (Error conflictMessage), w)
       \<and> delete hc u (Some a) w = (Inl (Error conflictMessage), w)
       \<and> head hc u (Some a) w = (Inl (Error conflictMessage), w)
       \<and> options hc u (Some a) w = (Inl (Error conflictMessage), w))"
  using conflict_fails [OF assms]
  by (simp add: get_def post_def put_def patch_def delete_def head_def options_def
      load_config_def)

text \<open>The scenario of the specification: a \<open>post\<close> with
  \<^verbatim>\<open>{headers: {Authorization: 'Bearer z'}}\<close> on a client with a resolver.\<close>

theorem C1_conflict_when_authorization_nonempty_witness:
  "post
     \<lparr>tokenResolverFunction = Some (constant_resolver ''abc''),
      client = register_interceptors (axios_create network_error_adapter),
      enableRetry = False, enableCache = False\<rparr>
     ''https://api.example/x'' ()
     (Some 0)
     ((initial_world sample_uuid)
        \<lparr>configs := (configs (initial_world sample_uuid))
           (0 := empty_config\<lparr>headers := Some [(''Authorization'', ''Bearer z'')]\<rparr>)\<rparr>) =
   (Inl (Error conflictMessage),
    (initial_world sample_uuid)
        \<lparr>configs := (configs (initial_world sample_uuid))
           (0 := empty_config\<lparr>headers := Some [(''Authorization'', ''Bearer z'')]\<rparr>)\<rparr>)"
  using C1_conflict_when_authorization_nonempty
    [of "\<lparr>tokenResolverFunction = Some (constant_resolver ''abc''),
      client = register_interceptors (axios_create network_error_adapter),
      enableRetry = False, enableCache = False\<rparr>" "constant_resolver ''abc''"
      "[(''Authorization'', ''Bearer z'')]" "''Bearer z''"
      "(initial_world sample_uuid)
        \<lparr>configs := (configs (initial_world sample_uuid))
           (0 := empty_config\<lparr>headers := Some [(''Authorization'', ''Bearer z'')]\<rparr>)\<rparr>"
      0 "''https://api.example/x''" "()"]
  by (simp add: empty_config_def)

text \<open>Claim C1 as stated fails: a header mapping that contains the key \<^verbatim>\<open>Authorization\<close>
  with the empty string as its value passes the check; the resolver is invoked and the
  call succeeds.\<close>

theorem C1_counterexample:
  "createHeadersWithResolvedToken
     \<lparr>tokenResolverFunction = Some (constant_resolver ''abc''),
      client = register_interceptors (axios_create network_error_adapter),
      enableRetry = False, enableCache = False\<rparr>
     (Some [(''Authorization'', [])])
     (initial_world sample_uuid :: unit world) =
   (Inr [(''Authorization'', ''Bearer abc'')],
    (initial_world sample_uuid)\<lparr>resolverCalls := 1\<rparr>)"
  by (simp add: createHeadersWithResolvedToken_def truthy_simps constant_resolver_def
      initial_world_def)

text \<open>
  Claim C2.  For every header mapping without an \<^verbatim>\<open>Authorization\<close> key, if a token
  resolver is configured, the resolver is invoked exactly once, and when it resolves to a
  token the function returns the input followed by the one entry
  \<^verbatim>\<open>Authorization: Bearer <token>\<close>; when it rejects, its error is the result.  An omitted
  argument counts as the empty mapping.
\<close>

theorem C2_resolver_adds_bearer_token:
  assumes "tokenResolverFunction hc = Some resolver"
    and "''Authorization'' \<notin> fst ` set hs"
  shows "createHeadersWithResolvedToken hc (Some hs) w =
           ((case resolver (resolverCalls w) of
               Inl e \<Rightarrow> Inl e
             | Inr token \<Rightarrow> Inr (hs @ [(''Authorization'', ''Bearer '' @ token)])),
            w\<lparr>resolverCalls := Suc (resolverCalls w)\<rparr>)
    \<and> createHeadersWithResolvedToken hc None w =
           ((case resolver (resolverCalls w) of
               Inl e \<Rightarrow> Inl e
             | Inr token \<Rightarrow> Inr [(''Authorization'', ''Bearer '' @ token)]),
            w\<lparr>resolverCalls := Suc (resolverCalls w)\<rparr>)"
  using assms
  by (simp add: createHeadersWithResolvedToken_def map_of_absent_key truthy_simps
      update_absent_key split: sum.split)

theorem C2_resolver_adds_bearer_token_witness:
  "createHeadersWithResolvedToken
     \<lparr>tokenResolverFunction = Some (constant_resolver ''abc''),
      client = register_interceptors (axios_create network_error_adapter),
      enableRetry = False, enableCache = False\<rparr>
     (Some [(''Accept'', ''text/html'')])
     (initial_world sample_uuid :: unit world) =
   (Inr [(''Accept'', ''text/html''), (''Authorization'', ''Bearer abc'')],
    (initial_world sample_uuid)\<lparr>resolverCalls := 1\<rparr>)"
  using C2_resolver_adds_bearer_token
    [of "\<lparr>tokenResolverFunction = Some (constant_resolver ''abc''),
      client = register_interceptors (axios_create network_error_adapter),
      enableRetry = False, enableCache = False\<rparr>" "constant_resolver ''abc''"
      "[(''Accept'', ''text/html'')]" "initial_world sample_uuid :: unit world"]
  by (simp add: constant_resolver_def initial_world_def)

text \<open>
  Claim C3.  When no token resolver is configured, \<open>createHeadersWithResolvedToken\<close> returns
  its input header mapping unchanged for every input, also one that has an
  \<^verbatim>\<open>Authorization\<close> key (an omitted argument is the default empty mapping), and it has no
  effect: the resolver count, the log and the transport are untouched.
\<close>

theorem C3_no_resolver_returns_input:
  "createHeadersWithResolvedToken (hc\<lparr>tokenResolverFunction := None\<rparr>) (Some hs) w = (Inr hs, w)
   \<and> createHeadersWithResolvedToken (hc\<lparr>tokenResolverFunction := None\<rparr>) None w = (Inr [], w)"
  by (simp add: createHeadersWithResolvedToken_def)

text \<open>
  Claim C4.  For every outgoing request whose \<open>url\<close> is undefined or empty, the request
  handler of the outbound interceptor throws the error with the message
  \<^verbatim>\<open>HttpClient Error: "url" must be defined\<close>, the request through the client fails with
  that error, and no configuration reaches the transport adapter.  In particular no verb
  method called with the empty URL reaches the transport.
\<close>

theorem C4_missing_url_fails_before_transport:
  assumes "url cfg = None \<or> url cfg = Some []"
  shows "fst (request_fulfilled cfg w) = Inl (Error missingUrlMessage)
    \<and> message (Error missingUrlMessage :: 'd axios_error) =
        ''HttpClient Error: '' @ [CHR 0x22] @ ''url'' @ [CHR 0x22] @ '' must be defined''
    \<and> fst (axios_request hc cfg (w :: 'd world)) = Inl (Error missingUrlMessage)
    \<and> sent (snd (axios_request hc cfg w)) = sent w
    \<and> sent (snd (get hc [] ref w)) = sent w
    \<and> sent (snd (post hc [] d ref w)) = sent w
    \<and> sent (snd (put hc [] d ref w)) = sent w
    \<and> sent (snd (patch hc [] d ref w)) = sent w
    \<and> sent (snd (delete hc [] ref w)) = sent w
    \<and> sent (snd (head hc [] ref w)) = sent w
    \<and> sent (snd (options hc [] ref w)) = sent w"
proof -
  from assms have nt: "\<not> truthy (url cfg)"
    by (auto simp add: truthy_simps)
  show ?thesis
    using nt axios_request_no_url [OF nt, of hc w]
    by (simp add: request_fulfilled_no_url missingUrlMessage_def verbs_empty_url_not_sent)
qed

theorem C4_missing_url_fails_before_transport_witness:
  "fst (axios_request
     \<lparr>tokenResolverFunction = None,
      client = register_interceptors (axios_create network_error_adapter),
      enableRetry = False, enableCache = False\<rparr>
     (empty_config\<lparr>url := Some [], http_method := Some ''get''\<rparr>)
     (initial_world sample_uuid :: unit world)) = Inl (Error missingUrlMessage)
   \<and> sent (snd (axios_request
     \<lparr>tokenResolverFunction = None,
      client = register_interceptors (axios_create network_error_adapter),
      enableRetry = False, enableCache = False\<rparr>
     (empty_config\<lparr>url := Some [], http_method := Some ''get''\<rparr>)
     (initial_world sample_uuid :: unit world))) = []"
  using C4_missing_url_fails_before_transport
    [of "empty_config\<lparr>url := Some [], http_method := Some ''get''\<rparr>"
        "initial_world sample_uuid :: unit world"
        "\<lparr>tokenResolverFunction = None,
      client = register_interceptors (axios_create network_error_adapter),
      enableRetry = False, enableCache = False\<rparr>"]
  by (simp add: empty_config_def initial_world_def)

text \<open>
  Claim C5.  For every failure handled by the error handler of the inbound interceptor,
  exactly one log event is emitted; its title is
  \<^verbatim>\<open>HTTP call skipped due to a token error\<close> if the message of the error is exactly
  \<^verbatim>\<open>Invalid token\<close> and \<^verbatim>\<open>HTTP Response Error\<close> for any other message; in both cases the
  handler throws an error whose message is the message of the original error.  A request
  whose transport call fails ends in this handler.
\<close>

theorem C5_failure_log_title_and_rethrow:
  "response_rejected error w =
     (Inl (Error (message error)),
      w\<lparr>logged := logged w @
         [\<lparr>title = (if message error = ''Invalid token''
                    then ''HTTP call skipped due to a token error''
                    else ''HTTP Response Error''),
           level = ''INFO'', log_requestId = errorRequestId error,
           log_method = None, log_url = None, exception = Some error\<rparr>]\<rparr>)
   \<and> message (Error (message error) :: 'd axios_error) = message error
   \<and> (truthy (url cfg) \<and> adapter (client hc) (length (sent w)) cfg = Inl error \<longrightarrow>
        fst (axios_request hc cfg w) = Inl (Error (message error))
      \<and> title (last (logged (snd (axios_request hc cfg w)))) =
          (if message error = ''Invalid token''
           then ''HTTP call skipped due to a token error''
           else ''HTTP Response Error''))"
  by (simp add: response_rejected_eq axios_request_transport_failure)

theorem C5_failure_log_title_and_rethrow_witness:
  "fst (axios_request
     \<lparr>tokenResolverFunction = None,
      client = register_interceptors (axios_create network_error_adapter),
      enableRetry = False, enableCache = False\<rparr>
     (empty_config\<lparr>url := Some ''https://api.example/x'', http_method := Some ''get''\<rparr>)
     (initial_world sample_uuid :: unit world)) = Inl (Error ''Network Error'')
   \<and> title (last (logged (snd (axios_request
     \<lparr>tokenResolverFunction = None,
      client = register_interceptors (axios_create network_error_adapter),
      enableRetry = False, enableCache = False\<rparr>
     (empty_config\<lparr>url := Some ''https://api.example/x'', http_method := Some ''get''\<rparr>)
     (initial_world sample_uuid :: unit world))))) = ''HTTP Response Error''"
  using C5_failure_log_title_and_rethrow
    [of "\<lparr>message = ''Network Error'',
          config = Some (empty_config\<lparr>url := Some ''https://api.example/x'', http_method := Some ''get''\<rparr>),
          request = None, response = None\<rparr>"
        "initial_world sample_uuid :: unit world"
        "empty_config\<lparr>url := Some ''https://api.example/x'', http_method := Some ''get''\<rparr>"
        "\<lparr>tokenResolverFunction = None,
      client = register_interceptors (axios_create network_error_adapter),
      enableRetry = False, enableCache = False\<rparr>"]
  by (simp add: truthy_simps register_interceptors_def axios_create_def
      network_error_adapter_def empty_config_def)

text \<open>
  Claim C6 says that the \<open>requestId\<close> of the failure log event equals the identifier that
  the outbound interceptor wrote when the request was sent.  The outbound handler writes
  the identifier to the module-level variable only and never to the request
  configuration, where the failure handler looks for it.  In this run of a \<open>get\<close> request
  whose transport call fails with a network error, the identifier written and logged at
  send time is \<^verbatim>\<open>id-x\<close>, and the \<open>requestId\<close> of the failure log event is undefined.
\<close>

theorem C6_failure_log_requestId_is_not_the_generated_id:
  "requestId_var (snd (axios_request
     \<lparr>tokenResolverFunction = None,
      client = register_interceptors (axios_create network_error_adapter),
      enableRetry = False, enableCache = False\<rparr>
     (empty_config\<lparr>url := Some ''https://api.example/x'', http_method := Some ''get''\<rparr>)
     (initial_world sample_uuid :: unit world))) = ''id-x''
   \<and> map title (logged (snd (axios_request
     \<lparr>tokenResolverFunction = None,
      client = register_interceptors (axios_create network_error_adapter),
      enableRetry = False, enableCache = False\<rparr>
     (empty_config\<lparr>url := Some ''https://api.example/x'', http_method := Some ''get''\<rparr>)
     (initial_world sample_uuid :: unit world)))) = [''HTTP Request'', ''HTTP Response Error'']
   \<and> map log_requestId (logged (snd (axios_request
     \<lparr>tokenResolverFunction = None,
      client = register_interceptors (axios_create network_error_adapter),
      enableRetry = False, enableCache = False\<rparr>
     (empty_config\<lparr>url := Some ''https://api.example/x'', http_method := Some ''get''\<rparr>)
     (initial_world sample_uuid :: unit world)))) = [Some ''id-x'', None]"
  by (simp add: axios_request_def request_fulfilled_def response_rejected_def
      logFunction_def Let_def truthy_simps register_interceptors_def axios_create_def
      network_error_adapter_def empty_config_def initial_world_def sample_uuid_def
      errorRequestId_def js_or_def invalidToken_def)

text \<open>
  Claim C7.  A construction with a supplied client keeps that client, whatever the flags
  \<open>enableCache\<close> and \<open>enableRetry\<close> and their options are: its adapter is the adapter of the
  supplied client, and the constructor only appends its request handler and its response
  handler after the handlers that the client already has.  A construction without a
  client, for every value of the options (each flag given or omitted), builds a client
  whose adapter is the default adapter, wrapped by the cache enhancer (with the cache
  options) when \<open>enableCache\<close> is set, and that wrapped in turn by the retry enhancer (with
  the retry options) when \<open>enableRetry\<close> is set; an omitted flag is off, also when the other
  flag is given.
\<close>

theorem C7_adapter_chain:
  "client (new_HttpClient im (Some (opts\<lparr>opt_client := Some c\<rparr>))) = register_interceptors c
   \<and> adapter (client (new_HttpClient im (Some (opts\<lparr>opt_client := Some c\<rparr>)))) = adapter c
   \<and> request_handlers (client (new_HttpClient im (Some (opts\<lparr>opt_client := Some c\<rparr>)))) =
       request_handlers c @ [HttpClient_request]
   \<and> response_handlers (client (new_HttpClient im (Some (opts\<lparr>opt_client := Some c\<rparr>)))) =
       response_handlers c @ [HttpClient_response]
   \<and> adapter (client (new_HttpClient im (Some (opts\<lparr>opt_client := None\<rparr>)))) =
       (if opt_enableRetry opts = Some True
        then retryAdapterEnhancer im
               (if opt_enableCache opts = Some True
                then cacheAdapterEnhancer im (defaults_adapter im) (opt_cacheOptions opts)
                else defaults_adapter im)
               (opt_retryOptions opts)
        else if opt_enableCache opts = Some True
             then cacheAdapterEnhancer im (defaults_adapter im) (opt_cacheOptions opts)
             else defaults_adapter im)
   \<and> adapter (client (new_HttpClient im
        (Some (opts\<lparr>opt_client := None, opt_enableCache := Some cache,
                    opt_enableRetry := Some retry\<rparr>)))) =
       (if retry
        then retryAdapterEnhancer im
               (if cache
                then cacheAdapterEnhancer im (defaults_adapter im) (opt_cacheOptions opts)
                else defaults_adapter im)
               (opt_retryOptions opts)
        else if cache
             then cacheAdapterEnhancer im (defaults_adapter im) (opt_cacheOptions opts)
             else defaults_adapter im)
   \<and> adapter (client (new_HttpClient im
        (Some (opts\<lparr>opt_client := None, opt_enableCache := Some True,
                    opt_enableRetry := None\<rparr>)))) =
       cacheAdapterEnhancer im (defaults_adapter im) (opt_cacheOptions opts)
   \<and> adapter (client (new_HttpClient im
        (Some (opts\<lparr>opt_client := None, opt_enableCache := None,
                    opt_enableRetry := Some True\<rparr>)))) =
       retryAdapterEnhancer im (defaults_adapter im) (opt_retryOptions opts)
   \<and> adapter (client (new_HttpClient im
        (Some (opts\<lparr>opt_client := None, opt_enableCache := None,
                    opt_enableRetry := None\<rparr>)))) = defaults_adapter im
   \<and> adapter (client (new_HttpClient im None)) = defaults_adapter im
   \<and> request_handlers (client (new_HttpClient im (Some (opts\<lparr>opt_client := None\<rparr>)))) =
       [HttpClient_request]
   \<and> response_handlers (client (new_HttpClient im (Some (opts\<lparr>opt_client := None\<rparr>)))) =
       [HttpClient_response]"
  by (auto simp add: new_HttpClient_def opt_chain_def nullish_def build_adapter_def
      register_interceptors_def axios_create_def Let_def split: option.split)

text \<open>
  Claim C8.  For every error value, \<open>serializeError\<close> returns \<^verbatim>\<open>undefined\<close> when the error
  carries no response, and otherwise the record of exactly the \<open>status\<close>, the \<open>statusText\<close>
  and the \<open>data\<close> of the error's response.
\<close>

theorem C8_serializeError:
  "serializeError (error\<lparr>response := None\<rparr>) = None
   \<and> serializeError (error\<lparr>response := Some r\<rparr>) =
       Some \<lparr>status = status r, statusText = statusText r, data = data r\<rparr>"
  by (simp add: serializeError_def)

text \<open>
  Claim C9.  A call of \<open>post\<close>, \<open>put\<close>, \<open>patch\<close>, \<open>delete\<close>, \<open>head\<close> or \<open>options\<close> with a
  configuration object of the caller changes the store in one place only: once the headers
  are resolved, the \<open>headers\<close> field of that object is overwritten with them, and its other
  fields and all other objects stay as they were (when the resolution fails, nothing is
  written).  A call of \<open>get\<close> leaves the store as it was.
\<close>

theorem C9_config_mutated_in_place_except_get:
  "configs (snd (post hc u d (Some a) w)) =
     (case fst (createHeadersWithResolvedToken hc (headers (configs w a)) w) of
        Inl e \<Rightarrow> configs w
      | Inr h \<Rightarrow> (configs w)(a := (configs w a)\<lparr>headers := Some h\<rparr>))
   \<and> configs (snd (put hc u d (Some a) w)) =
     (case fst (createHeadersWithResolvedToken hc (headers (configs w a)) w) of
        Inl e \<Rightarrow> configs w
      | Inr h \<Rightarrow> (configs w)(a := (configs w a)\<lparr>headers := Some h\<rparr>))
   \<and> configs (snd (patch hc u d (Some a) w)) =
     (case fst (createHeadersWithResolvedToken hc (headers (configs w a)) w) of
        Inl e \<Rightarrow> configs w
      | Inr h \<Rightarrow> (configs w)(a := (configs w a)\<lparr>headers := Some h\<rparr>))
   \<and> configs (snd (delete hc u (Some a) w)) =
     (case fst (createHeadersWithResolvedToken hc (headers (configs w a)) w) of
        Inl e \<Rightarrow> configs w
      | Inr h \<Rightarrow> (configs w)(a := (configs w a)\<lparr>headers := Some h\<rparr>))
   \<and> configs (snd (head hc u (Some a) w)) =
     (case fst (createHeadersWithResolvedToken hc (headers (configs w a)) w) of
        Inl e \<Rightarrow> configs w
      | Inr h \<Rightarrow> (configs w)(a := (configs w a)\<lparr>headers := Some h\<rparr>))
   \<and> configs (snd (options hc u (Some a) w)) =
     (case fst (createHeadersWithResolvedToken hc (headers (configs w a)) w) of
        Inl e \<Rightarrow> configs w
      | Inr h \<Rightarrow> (configs w)(a := (configs w a)\<lparr>headers := Some h\<rparr>))
   \<and> configs (snd (get hc u ref w)) = configs w"
  by (simp only: post_configs put_configs patch_configs delete_configs head_configs
      options_configs get_keeps_configs simp_thms)

text \<open>
  Claim C10.  With a token resolver that resolves to a token, the conflict error is raised
  exactly when the key \<^verbatim>\<open>Authorization\<close> itself has a non-empty value.  An input with the
  key \<^verbatim>\<open>authorization\<close> and no key \<^verbatim>\<open>Authorization\<close>, and an input whose \<^verbatim>\<open>Authorization\<close>
  is the empty string, raise no conflict: the resolver is invoked once and
  \<^verbatim>\<open>Authorization: Bearer <token>\<close> is written into the returned mapping.
\<close>

theorem C10_conflict_check_exact_key_and_truthy:
  assumes "tokenResolverFunction hc = Some resolver"
    and "resolver (resolverCalls w) = Inr token"
  shows "((fst (createHeadersWithResolvedToken hc (Some hs) w) = Inl (Error conflictMessage))
           = truthy (map_of hs ''Authorization''))
    \<and> (''authorization'' \<in> fst ` set hs \<and> ''Authorization'' \<notin> fst ` set hs \<longrightarrow>
          createHeadersWithResolvedToken hc (Some hs) w =
            (Inr (hs @ [(''Authorization'', ''Bearer '' @ token)]),
             w\<lparr>resolverCalls := Suc (resolverCalls w)\<rparr>))
    \<and> (map_of hs ''Authorization'' = Some [] \<longrightarrow>
          createHeadersWithResolvedToken hc (Some hs) w =
            (Inr (AList.update ''Authorization'' (''Bearer '' @ token) hs),
             w\<lparr>resolverCalls := Suc (resolverCalls w)\<rparr>)
          \<and> map_of (AList.update ''Authorization'' (''Bearer '' @ token) hs) ''Authorization''
              = Some (''Bearer '' @ token))"
  using assms
  by (auto simp add: createHeadersWithResolvedToken_def map_of_absent_key truthy_simps
      update_absent_key AList.update_conv')

theorem C10_conflict_check_exact_key_and_truthy_witness:
  "createHeadersWithResolvedToken
     \<lparr>tokenResolverFunction = Some (constant_resolver ''abc''),
      client = register_interceptors (axios_create network_error_adapter),
      enableRetry = False, enableCache = False\<rparr>
     (Some [(''authorization'', ''Basic q'')])
     (initial_world sample_uuid :: unit world) =
   (Inr [(''authorization'', ''Basic q''), (''Authorization'', ''Bearer abc'')],
    (initial_world sample_uuid)\<lparr>resolverCalls := 1\<rparr>)"
  using C10_conflict_check_exact_key_and_truthy
    [of "\<lparr>tokenResolverFunction = Some (constant_resolver ''abc''),
      client = register_interceptors (axios_create network_error_adapter),
      enableRetry = False, enableCache = False\<rparr>" "constant_resolver ''abc''"
      "initial_world sample_uuid :: unit world" "''abc''"
      "[(''authorization'', ''Basic q'')]"]
  by (simp add: constant_resolver_def initial_world_def)

end
